theory Spec2Isabelle
  imports Main
begin

section \<open>The WalletConnect wallet adapter (packages/core/wallets/src/types.ts)\<close>

text \<open>
  The adapter is a small stateful class around an external session SDK (\<open>WcSdk\<close>).
  Its methods are modelled as functions from the adapter's fields to a record holding
  what the call returned or threw, the fields afterwards, the notifications emitted
  and the SDK calls performed, each in order. The SDK is not part of the repository:
  an SDK instance is a record saying, for each method the adapter uses, how that
  method answers (resolves, or rejects with a thrown value).
\<close>

subsection \<open>Thrown values and notifications\<close>

text \<open>
  The subclasses of \<open>WalletError\<close> the adapter constructs, and \<open>WalletOtherError\<close> for
  any other subclass an SDK call may throw.
\<close>

datatype WalletErrorName =
    WalletConnectionError
  | WalletAccountError
  | WalletDisconnectionError
  | WalletDisconnectedError
  | WalletNotConnectedError
  | WalletOtherError

text \<open>
  A thrown value is either an instance of \<open>WalletError\<close>, built as
  \<open>new C(message, error)\<close> with both arguments optional, or any other value, of which
  only the \<open>message\<close> property (if defined) is ever read.
\<close>

datatype thrown =
    WalletError WalletErrorName "string option" "thrown option"
  | Foreign "string option"

text \<open>\<open>error instanceof WalletError\<close>\<close>

fun instanceof_WalletError :: "thrown \<Rightarrow> bool" where
  "instanceof_WalletError (WalletError n m c) = True"
| "instanceof_WalletError (Foreign m) = False"

text \<open>\<open>error?.message\<close>. A \<open>WalletError\<close> is an \<open>Error\<close>: built without a message it
  has no \<open>message\<close> of its own and reads the inherited empty string. For any other
  value the constructor argument already is what \<open>message\<close> reads.\<close>

fun message_of :: "thrown \<Rightarrow> string option" where
  "message_of (WalletError n None c) = Some []"
| "message_of (WalletError n (Some m) c) = Some m"
| "message_of (Foreign m) = m"

text \<open>The three notifications of the base adapter: \<open>emit('connect')\<close>,
  \<open>emit('disconnect')\<close>, \<open>emit('error', e)\<close>.\<close>

datatype event = EvConnect | EvDisconnect | EvError thrown

subsection \<open>Requests, SDK arguments and responses\<close>

text \<open>
  Only the fields the adapter reads are modelled. Arguments \<open>'a\<close>, signers \<open>'s\<close>,
  batch invocation descriptors \<open>'i\<close>, pairing options \<open>'o\<close> and the rest of an
  execution payload \<open>'p\<close> are passed through untouched, so they are type parameters.
\<close>

record ('a, 's) ContractInvocation =
  scriptHash :: string
  operation :: string
  args :: "'a list"
  abortOnFail :: "bool option"
  signers :: "'s list option"

record ('i, 's) ContractInvocationMulti =
  invocations :: "'i list"
  multi_signers :: "'s list"

text \<open>The argument objects handed to the SDK.\<close>

record ('a, 's) WcInvocation =
  wc_scriptHash :: string
  wc_operation :: string
  wc_args :: "'a list"
  wc_abortOnFail :: "bool option"
  wc_signer :: "'s option"

record ('i, 's) WcInvocationMulti =
  wc_invocations :: "'i list"
  wc_signers :: "'s list"

text \<open>\<open>RpcCallResult\<close>: \<open>response.result\<close> with its \<open>state\<close>, its optional \<open>error\<close>
  object and the remaining fields of the execution payload.\<close>

record RpcError =
  message :: "string option"
  code :: "int option"

record 'p RpcResult =
  state :: string
  error :: "RpcError option"
  payload :: 'p

record 'p RpcCallResult =
  result :: "'p RpcResult"

text \<open>
  \<open>ContractReadInvocationResult\<close> and \<open>ContractWriteInvocationResult\<close>: an object
  \<open>{status: 'success', data}\<close> or \<open>{status: 'error', message, code}\<close>.
\<close>

datatype 'p ContractInvocationResult =
    Success "'p RpcResult"
  | Error "string option" "int option"

fun status :: "'p ContractInvocationResult \<Rightarrow> string" where
  "status (Success d) = ''success''"
| "status (Error m c) = ''error''"

subsection \<open>The SDK and the adapter's fields\<close>

datatype ('o, 'a, 's, 'i) sdk_call =
    NewWcSdk
  | InitClient string string
  | Connect 'o
  | GetAccountAddress
  | SubscribeToEvents
  | Disconnect
  | TestInvoke "('a, 's) WcInvocation"
  | MultiTestInvoke "('i, 's) WcInvocationMulti"
  | InvokeFunction "('a, 's) WcInvocation"
  | MultiInvoke "('i, 's) WcInvocationMulti"

text \<open>
  An SDK instance. A method returning \<open>thrown option\<close> resolves with no value
  (\<open>None\<close>) or rejects (\<open>Some e\<close>); one returning a sum resolves with \<open>Inr\<close> or
  rejects with \<open>Inl\<close>. \<open>sdk_session\<close> is the truthiness of the \<open>session\<close> property
  as read after \<open>connect\<close> has resolved.
\<close>

record ('o, 'a, 's, 'i, 'p) WcSdk =
  sdk_initClient :: "string \<Rightarrow> string \<Rightarrow> thrown option"
  sdk_connect :: "'o \<Rightarrow> thrown option"
  sdk_session :: bool
  sdk_getAccountAddress :: "thrown + string"
  sdk_subscribeToEvents :: "thrown option"
  sdk_disconnect :: "thrown option"
  sdk_testInvoke :: "('a, 's) WcInvocation \<Rightarrow> thrown + 'p RpcCallResult"
  sdk_multiTestInvoke :: "('i, 's) WcInvocationMulti \<Rightarrow> thrown + 'p RpcCallResult"
  sdk_invokeFunction :: "('a, 's) WcInvocation \<Rightarrow> thrown + 'p RpcCallResult"
  sdk_multiInvoke :: "('i, 's) WcInvocationMulti \<Rightarrow> thrown + 'p RpcCallResult"

record 'o WalletConnectWalletAdapterConfig =
  config_options :: 'o
  config_logger :: string
  config_relayServer :: string

text \<open>The private fields \<open>_address\<close>, \<open>_connecting\<close>, \<open>_options\<close>, \<open>_logger\<close>,
  \<open>_relayServer\<close> and \<open>_sdk\<close>.\<close>

record ('o, 'a, 's, 'i, 'p) WalletConnectWalletAdapter =
  address :: "string option"
  connecting :: bool
  options :: 'o
  logger :: string
  relayServer :: string
  sdk :: "('o, 'a, 's, 'i, 'p) WcSdk option"

text \<open>What one call did: its return value or the value it threw, the adapter
  afterwards, the notifications emitted and the SDK calls made.\<close>

record ('r, 'ad, 'c) run =
  ret :: "thrown + 'r"
  post :: 'ad
  emitted :: "event list"
  sdk_calls :: "'c list"

text \<open>The constructor.\<close>

definition new_adapter ::
  "'o WalletConnectWalletAdapterConfig \<Rightarrow> ('o, 'a, 's, 'i, 'p) WalletConnectWalletAdapter" where
  "new_adapter config =
     \<lparr>address = None, connecting = False, options = config_options config,
      logger = config_logger config, relayServer = config_relayServer config, sdk = None\<rparr>"

text \<open>\<open>get connected\<close>: \<open>!!this._address\<close>, false for \<open>null\<close> and for the empty string.\<close>

definition connected :: "('o, 'a, 's, 'i, 'p) WalletConnectWalletAdapter \<Rightarrow> bool" where
  "connected ad = (case address ad of None \<Rightarrow> False | Some a \<Rightarrow> a \<noteq> [])"

subsection \<open>connect\<close>

text \<open>The handler of the inner \<open>catch\<close> (lines 92-95): a \<open>WalletError\<close> passes
  through, anything else is wrapped.\<close>

definition rethrow_connection :: "thrown \<Rightarrow> thrown" where
  "rethrow_connection e =
     (if instanceof_WalletError e then e
      else WalletError WalletConnectionError (message_of e) (Some e))"

text \<open>The first inner \<open>try\<close> (lines 84-95). \<open>new_sdk\<close> is what \<open>new WcSdk()\<close>
  evaluates to: an instance, or a thrown value.\<close>

definition connect_handshake ::
  "('o, 'a, 's, 'i, 'p) WalletConnectWalletAdapter \<Rightarrow> thrown + ('o, 'a, 's, 'i, 'p) WcSdk \<Rightarrow>
   (('o, 'a, 's, 'i, 'p) WcSdk, ('o, 'a, 's, 'i, 'p) WalletConnectWalletAdapter,
    ('o, 'a, 's, 'i) sdk_call) run" where
  "connect_handshake ad new_sdk =
     (case new_sdk of
        Inl e \<Rightarrow>
          \<lparr>ret = Inl (rethrow_connection e), post = ad, emitted = [], sdk_calls = [NewWcSdk]\<rparr>
      | Inr k \<Rightarrow>
          (let ad' = ad\<lparr>sdk := Some k\<rparr>;
               init = InitClient (logger ad) (relayServer ad)
           in case sdk_initClient k (logger ad) (relayServer ad) of
                Some e \<Rightarrow>
                  \<lparr>ret = Inl (rethrow_connection e), post = ad', emitted = [],
                   sdk_calls = [NewWcSdk, init]\<rparr>
              | None \<Rightarrow>
                  (case sdk_connect k (options ad) of
                     Some e \<Rightarrow>
                       \<lparr>ret = Inl (rethrow_connection e), post = ad', emitted = [],
                        sdk_calls = [NewWcSdk, init, Connect (options ad)]\<rparr>
                   | None \<Rightarrow>
                       \<lparr>ret = Inr k, post = ad', emitted = [],
                        sdk_calls = [NewWcSdk, init, Connect (options ad)]\<rparr>)))"

text \<open>The body of the outer \<open>try\<close> (lines 81-121).\<close>

definition connect_try ::
  "('o, 'a, 's, 'i, 'p) WalletConnectWalletAdapter \<Rightarrow> thrown + ('o, 'a, 's, 'i, 'p) WcSdk \<Rightarrow>
   (unit, ('o, 'a, 's, 'i, 'p) WalletConnectWalletAdapter, ('o, 'a, 's, 'i) sdk_call) run" where
  "connect_try ad new_sdk =
     (if connected ad \<or> connecting ad
      then \<lparr>ret = Inr (), post = ad, emitted = [], sdk_calls = []\<rparr>
      else
        (let h = connect_handshake (ad\<lparr>connecting := True\<rparr>) new_sdk
         in case ret h of
              Inl e \<Rightarrow> \<lparr>ret = Inl e, post = post h, emitted = [], sdk_calls = sdk_calls h\<rparr>
            | Inr k \<Rightarrow>
                if \<not> sdk_session k
                then \<lparr>ret = Inl (WalletError WalletAccountError None None), post = post h,
                      emitted = [], sdk_calls = sdk_calls h\<rparr>
                else
                  (case sdk_getAccountAddress k of
                     Inl e \<Rightarrow>
                       \<lparr>ret = Inl (WalletError WalletAccountError (message_of e) (Some e)),
                        post = post h, emitted = [],
                        sdk_calls = sdk_calls h @ [GetAccountAddress]\<rparr>
                   | Inr a \<Rightarrow>
                       (let ad' = (post h)\<lparr>address := Some a\<rparr>
                        in case sdk_subscribeToEvents k of
                             Some e \<Rightarrow>
                               \<lparr>ret = Inl e, post = ad', emitted = [],
                                sdk_calls = sdk_calls h @ [GetAccountAddress, SubscribeToEvents]\<rparr>
                           | None \<Rightarrow>
                               \<lparr>ret = Inr (), post = ad', emitted = [EvConnect],
                                sdk_calls =
                                  sdk_calls h @ [GetAccountAddress, SubscribeToEvents]\<rparr>))))"

text \<open>\<open>connect\<close> (lines 79-128): the outer \<open>catch\<close> emits the error and throws it
  again; the \<open>finally\<close> clears \<open>_connecting\<close> on every way out of the \<open>try\<close>.\<close>

definition connect ::
  "('o, 'a, 's, 'i, 'p) WalletConnectWalletAdapter \<Rightarrow> thrown + ('o, 'a, 's, 'i, 'p) WcSdk \<Rightarrow>
   (unit, ('o, 'a, 's, 'i, 'p) WalletConnectWalletAdapter, ('o, 'a, 's, 'i) sdk_call) run" where
  "connect ad new_sdk =
     (let t = connect_try ad new_sdk;
          c = (case ret t of
                 Inl e \<Rightarrow> t\<lparr>emitted := emitted t @ [EvError e]\<rparr>
               | Inr u \<Rightarrow> t)
      in c\<lparr>post := (post c)\<lparr>connecting := False\<rparr>\<rparr>)"

subsection \<open>disconnect and the forced disconnect\<close>

text \<open>\<open>disconnect\<close> (lines 130-143).\<close>

definition disconnect ::
  "('o, 'a, 's, 'i, 'p) WalletConnectWalletAdapter \<Rightarrow>
   (unit, ('o, 'a, 's, 'i, 'p) WalletConnectWalletAdapter, ('o, 'a, 's, 'i) sdk_call) run" where
  "disconnect ad =
     (case sdk ad of
        None \<Rightarrow> \<lparr>ret = Inr (), post = ad, emitted = [EvDisconnect], sdk_calls = []\<rparr>
      | Some k \<Rightarrow>
          (case sdk_disconnect k of
             None \<Rightarrow>
               \<lparr>ret = Inr (), post = ad\<lparr>address := None, sdk := None\<rparr>,
                emitted = [EvDisconnect], sdk_calls = [Disconnect]\<rparr>
           | Some e \<Rightarrow>
               \<lparr>ret = Inr (), post = ad,
                emitted = [EvError (WalletError WalletDisconnectionError (message_of e) (Some e)),
                           EvDisconnect],
                sdk_calls = [Disconnect]\<rparr>))"

text \<open>
  \<open>_disconnected\<close> (lines 253-264) is a method of the prototype, so what it reads and
  writes depends on the \<open>this\<close> it is called with:
  \<^item> the adapter itself, as in \<open>adapter._disconnected()\<close>;
  \<^item> the object literal of lines 108-119 that holds the three callbacks, which has no
    \<open>_sdk\<close> property, so that \<open>this._sdk\<close> reads \<open>undefined\<close>;
  \<^item> \<open>undefined\<close> (class code is strict), where reading \<open>this._sdk\<close> throws a
    \<open>TypeError\<close>, whose message text depends on the engine.
  In the last two cases the adapter is not touched and its \<open>emit\<close> is not reached.
\<close>

datatype receiver = ThisAdapter | ThisCallbacks | ThisUndefined

definition disconnected ::
  "receiver \<Rightarrow> ('o, 'a, 's, 'i, 'p) WalletConnectWalletAdapter \<Rightarrow>
   (unit, ('o, 'a, 's, 'i, 'p) WalletConnectWalletAdapter, ('o, 'a, 's, 'i) sdk_call) run" where
  "disconnected this ad =
     (case this of
        ThisAdapter \<Rightarrow>
          (case sdk ad of
             None \<Rightarrow> \<lparr>ret = Inr (), post = ad, emitted = [], sdk_calls = []\<rparr>
           | Some k \<Rightarrow>
               \<lparr>ret = Inr (), post = ad\<lparr>address := None, sdk := None\<rparr>,
                emitted = [EvError (WalletError WalletDisconnectedError None None),
                           EvDisconnect],
                sdk_calls = []\<rparr>)
      | ThisCallbacks \<Rightarrow> \<lparr>ret = Inr (), post = ad, emitted = [], sdk_calls = []\<rparr>
      | ThisUndefined \<Rightarrow>
          \<lparr>ret = Inl (Foreign (Some ''Cannot read properties of undefined'')), post = ad,
           emitted = [], sdk_calls = []\<rparr>)"

text \<open>
  The handler of the session-deletion event as \<open>connect\<close> registers it (line 118):
  \<open>onDeleted: this._disconnected\<close>, the method itself, not bound to the adapter and
  not wrapped in an arrow function. The SDK calls it either as a method of the callbacks
  object or as a plain function; it has no reference to the adapter to call it on.
\<close>

datatype dispatch = CalledOnCallbacks | CalledAsFunction

definition onDeleted ::
  "dispatch \<Rightarrow> ('o, 'a, 's, 'i, 'p) WalletConnectWalletAdapter \<Rightarrow>
   (unit, ('o, 'a, 's, 'i, 'p) WalletConnectWalletAdapter, ('o, 'a, 's, 'i) sdk_call) run" where
  "onDeleted d ad =
     disconnected (case d of CalledOnCallbacks \<Rightarrow> ThisCallbacks
                           | CalledAsFunction \<Rightarrow> ThisUndefined) ad"

subsection \<open>Result translation\<close>

text \<open>\<open>_responseToReadResult\<close> (lines 215-232). The spread \<open>{...response.result}\<close>
  copies every field of the payload.\<close>

definition responseToReadResult :: "'p RpcCallResult \<Rightarrow> 'p ContractInvocationResult" where
  "responseToReadResult response =
     (if state (result response) = ''HALT''
      then Success (result response)
      else Error
             (case error (result response) of None \<Rightarrow> None | Some e \<Rightarrow> message e)
             (case error (result response) of None \<Rightarrow> None | Some e \<Rightarrow> code e))"

text \<open>\<open>_responseToWriteResult\<close> (lines 234-251).\<close>

definition responseToWriteResult :: "'p RpcCallResult \<Rightarrow> 'p ContractInvocationResult" where
  "responseToWriteResult response =
     (if state (result response) = ''HALT''
      then Success (result response)
      else Error
             (case error (result response) of None \<Rightarrow> None | Some e \<Rightarrow> message e)
             (case error (result response) of None \<Rightarrow> None | Some e \<Rightarrow> code e))"

subsection \<open>The four invocation calls\<close>

text \<open>\<open>request.signers?.[0]\<close>: undefined when there is no list or the list is empty.\<close>

fun first_signer :: "'s list option \<Rightarrow> 's option" where
  "first_signer None = None"
| "first_signer (Some []) = None"
| "first_signer (Some (x # xs)) = Some x"

definition single_args :: "('a, 's) ContractInvocation \<Rightarrow> ('a, 's) WcInvocation" where
  "single_args request =
     \<lparr>wc_scriptHash = scriptHash request, wc_operation = operation request,
      wc_args = args request, wc_abortOnFail = abortOnFail request,
      wc_signer = first_signer (signers request)\<rparr>"

definition multi_args :: "('i, 's) ContractInvocationMulti \<Rightarrow> ('i, 's) WcInvocationMulti" where
  "multi_args request =
     \<lparr>wc_invocations = invocations request, wc_signers = multi_signers request\<rparr>"

text \<open>\<open>invokeRead\<close> (lines 145-162).\<close>

definition invokeRead ::
  "('o, 'a, 's, 'i, 'p) WalletConnectWalletAdapter \<Rightarrow> ('a, 's) ContractInvocation \<Rightarrow>
   ('p ContractInvocationResult, ('o, 'a, 's, 'i, 'p) WalletConnectWalletAdapter,
    ('o, 'a, 's, 'i) sdk_call) run" where
  "invokeRead ad request =
     (case sdk ad of
        None \<Rightarrow>
          \<lparr>ret = Inl (WalletError WalletNotConnectedError None None), post = ad,
           emitted = [], sdk_calls = []\<rparr>
      | Some k \<Rightarrow>
          (case sdk_testInvoke k (single_args request) of
             Inl e \<Rightarrow>
               \<lparr>ret = Inl e, post = ad, emitted = [EvError e],
                sdk_calls = [TestInvoke (single_args request)]\<rparr>
           | Inr response \<Rightarrow>
               \<lparr>ret = Inr (responseToReadResult response), post = ad, emitted = [],
                sdk_calls = [TestInvoke (single_args request)]\<rparr>))"

text \<open>\<open>invokeReadMulti\<close> (lines 164-178).\<close>

definition invokeReadMulti ::
  "('o, 'a, 's, 'i, 'p) WalletConnectWalletAdapter \<Rightarrow> ('i, 's) ContractInvocationMulti \<Rightarrow>
   ('p ContractInvocationResult, ('o, 'a, 's, 'i, 'p) WalletConnectWalletAdapter,
    ('o, 'a, 's, 'i) sdk_call) run" where
  "invokeReadMulti ad request =
     (case sdk ad of
        None \<Rightarrow>
          \<lparr>ret = Inl (WalletError WalletNotConnectedError None None), post = ad,
           emitted = [], sdk_calls = []\<rparr>
      | Some k \<Rightarrow>
          (case sdk_multiTestInvoke k (multi_args request) of
             Inl e \<Rightarrow>
               \<lparr>ret = Inl e, post = ad, emitted = [EvError e],
                sdk_calls = [MultiTestInvoke (multi_args request)]\<rparr>
           | Inr response \<Rightarrow>
               \<lparr>ret = Inr (responseToReadResult response), post = ad, emitted = [],
                sdk_calls = [MultiTestInvoke (multi_args request)]\<rparr>))"

text \<open>\<open>invoke\<close> (lines 180-197).\<close>

definition invoke ::
  "('o, 'a, 's, 'i, 'p) WalletConnectWalletAdapter \<Rightarrow> ('a, 's) ContractInvocation \<Rightarrow>
   ('p ContractInvocationResult, ('o, 'a, 's, 'i, 'p) WalletConnectWalletAdapter,
    ('o, 'a, 's, 'i) sdk_call) run" where
  "invoke ad request =
     (case sdk ad of
        None \<Rightarrow>
          \<lparr>ret = Inl (WalletError WalletNotConnectedError None None), post = ad,
           emitted = [], sdk_calls = []\<rparr>
      | Some k \<Rightarrow>
          (case sdk_invokeFunction k (single_args request) of
             Inl e \<Rightarrow>
               \<lparr>ret = Inl e, post = ad, emitted = [EvError e],
                sdk_calls = [InvokeFunction (single_args request)]\<rparr>
           | Inr response \<Rightarrow>
               \<lparr>ret = Inr (responseToWriteResult response), post = ad, emitted = [],
                sdk_calls = [InvokeFunction (single_args request)]\<rparr>))"

text \<open>\<open>invokeMulti\<close> (lines 199-213).\<close>

definition invokeMulti ::
  "('o, 'a, 's, 'i, 'p) WalletConnectWalletAdapter \<Rightarrow> ('i, 's) ContractInvocationMulti \<Rightarrow>
   ('p ContractInvocationResult, ('o, 'a, 's, 'i, 'p) WalletConnectWalletAdapter,
    ('o, 'a, 's, 'i) sdk_call) run" where
  "invokeMulti ad request =
     (case sdk ad of
        None \<Rightarrow>
          \<lparr>ret = Inl (WalletError WalletNotConnectedError None None), post = ad,
           emitted = [], sdk_calls = []\<rparr>
      | Some k \<Rightarrow>
          (case sdk_multiInvoke k (multi_args request) of
             Inl e \<Rightarrow>
               \<lparr>ret = Inl e, post = ad, emitted = [EvError e],
                sdk_calls = [MultiInvoke (multi_args request)]\<rparr>
           | Inr response \<Rightarrow>
               \<lparr>ret = Inr (responseToWriteResult response), post = ad, emitted = [],
                sdk_calls = [MultiInvoke (multi_args request)]\<rparr>))"

subsection \<open>Concrete adapters and SDK instances\<close>

text \<open>Sample inputs with every type parameter instantiated, used to run the model.\<close>

definition demo_config :: "string WalletConnectWalletAdapterConfig" where
  "demo_config =
     \<lparr>config_options = ''neo3:testnet'', config_logger = ''debug'',
      config_relayServer = ''wss://relay.walletconnect.org''\<rparr>"

definition halt_response :: "string RpcCallResult" where
  "halt_response = \<lparr>result = \<lparr>state = ''HALT'', error = None, payload = ''stack''\<rparr>\<rparr>"

definition fault_response :: "string RpcCallResult" where
  "fault_response =
     \<lparr>result = \<lparr>state = ''FAULT'', error = Some \<lparr>message = Some ''m'', code = Some 7\<rparr>,
                payload = ''stack''\<rparr>\<rparr>"

text \<open>An SDK instance on which every call resolves.\<close>

definition demo_sdk :: "(string, string, string, string, string) WcSdk" where
  "demo_sdk =
     \<lparr>sdk_initClient = (\<lambda>l r. None), sdk_connect = (\<lambda>opts. None), sdk_session = True,
      sdk_getAccountAddress = Inr ''NZs2zXSPuuv9ZF6TDGSWT1RBmE8rfGj7UW'',
      sdk_subscribeToEvents = None, sdk_disconnect = None,
      sdk_testInvoke = (\<lambda>a. Inr halt_response),
      sdk_multiTestInvoke = (\<lambda>a. Inr halt_response),
      sdk_invokeFunction = (\<lambda>a. Inr halt_response),
      sdk_multiInvoke = (\<lambda>a. Inr halt_response)\<rparr>"

text \<open>One whose \<open>initClient\<close> rejects, one that reports no session after the
  handshake, and one whose \<open>disconnect\<close> rejects.\<close>

definition unreachable_sdk :: "(string, string, string, string, string) WcSdk" where
  "unreachable_sdk =
     demo_sdk\<lparr>sdk_initClient := (\<lambda>l r. Some (Foreign (Some ''relay unreachable'')))\<rparr>"

definition sessionless_sdk :: "(string, string, string, string, string) WcSdk" where
  "sessionless_sdk = demo_sdk\<lparr>sdk_session := False\<rparr>"

definition stuck_sdk :: "(string, string, string, string, string) WcSdk" where
  "stuck_sdk = demo_sdk\<lparr>sdk_disconnect := Some (Foreign (Some ''teardown failed''))\<rparr>"

definition demo_request :: "(string, string) ContractInvocation" where
  "demo_request =
     \<lparr>scriptHash = ''0xd2a4cff31913016155e38e474a2c06d08be276cf'', operation = ''balanceOf'',
      args = [''NZs2zXSPuuv9ZF6TDGSWT1RBmE8rfGj7UW''], abortOnFail = None, signers = None\<rparr>"

definition demo_request_multi :: "(string, string) ContractInvocationMulti" where
  "demo_request_multi = \<lparr>invocations = [''balanceOf'', ''symbol''], multi_signers = []\<rparr>"

definition fresh :: "(string, string, string, string, string) WalletConnectWalletAdapter" where
  "fresh = new_adapter demo_config"

text \<open>An adapter holding \<open>k\<close> and the address \<open>k\<close> gave, as a successful
  \<open>connect\<close> leaves it.\<close>

definition holding ::
  "(string, string, string, string, string) WcSdk \<Rightarrow>
   (string, string, string, string, string) WalletConnectWalletAdapter" where
  "holding k = post (connect fresh (Inr k))"

text \<open>An adapter whose address, if any, comes with an SDK handle.\<close>

definition address_needs_sdk :: "('o, 'a, 's, 'i, 'p) WalletConnectWalletAdapter \<Rightarrow> bool" where
  "address_needs_sdk ad = (address ad = None \<or> sdk ad \<noteq> None)"

section \<open>Properties\<close>

subsection \<open>Running the model\<close>

lemma connect_demo:
  "connect fresh (Inr demo_sdk) =
     \<lparr>ret = Inr (),
      post = fresh\<lparr>address := Some ''NZs2zXSPuuv9ZF6TDGSWT1RBmE8rfGj7UW'', sdk := Some demo_sdk\<rparr>,
      emitted = [EvConnect],
      sdk_calls = [NewWcSdk, InitClient ''debug'' ''wss://relay.walletconnect.org'',
                   Connect ''neo3:testnet'', GetAccountAddress, SubscribeToEvents]\<rparr>"
  by (simp add: connect_def connect_try_def connect_handshake_def connected_def fresh_def
      new_adapter_def demo_config_def demo_sdk_def)

lemma connect_unreachable:
  "connect fresh (Inr unreachable_sdk) =
     \<lparr>ret = Inl (WalletError WalletConnectionError (Some ''relay unreachable'')
                   (Some (Foreign (Some ''relay unreachable'')))),
      post = fresh\<lparr>sdk := Some unreachable_sdk\<rparr>,
      emitted = [EvError (WalletError WalletConnectionError (Some ''relay unreachable'')
                   (Some (Foreign (Some ''relay unreachable''))))],
      sdk_calls = [NewWcSdk, InitClient ''debug'' ''wss://relay.walletconnect.org'']\<rparr>"
  by (simp add: connect_def connect_try_def connect_handshake_def connected_def fresh_def
      new_adapter_def demo_config_def unreachable_sdk_def demo_sdk_def rethrow_connection_def)

lemma holding_fields:
  "sdk_session k \<Longrightarrow> sdk_initClient k = (\<lambda>l r. None) \<Longrightarrow> sdk_connect k = (\<lambda>opts. None) \<Longrightarrow>
   sdk_getAccountAddress k = Inr a \<Longrightarrow>
   holding k = fresh\<lparr>address := Some a, sdk := Some k\<rparr>"
  by (cases "sdk_subscribeToEvents k")
     (simp_all add: holding_def connect_def connect_try_def connect_handshake_def connected_def
      fresh_def new_adapter_def)

lemma connect_sessionless:
  "connect fresh (Inr sessionless_sdk) =
     \<lparr>ret = Inl (WalletError WalletAccountError None None),
      post = fresh\<lparr>sdk := Some sessionless_sdk\<rparr>,
      emitted = [EvError (WalletError WalletAccountError None None)],
      sdk_calls = [NewWcSdk, InitClient ''debug'' ''wss://relay.walletconnect.org'',
                   Connect ''neo3:testnet'']\<rparr>"
  by (simp add: connect_def connect_try_def connect_handshake_def connected_def fresh_def
      new_adapter_def demo_config_def sessionless_sdk_def demo_sdk_def)

lemma holding_demo:
  "holding demo_sdk =
     fresh\<lparr>address := Some ''NZs2zXSPuuv9ZF6TDGSWT1RBmE8rfGj7UW'', sdk := Some demo_sdk\<rparr>"
  by (rule holding_fields) (simp_all add: demo_sdk_def)

lemma holding_stuck:
  "holding stuck_sdk =
     fresh\<lparr>address := Some ''NZs2zXSPuuv9ZF6TDGSWT1RBmE8rfGj7UW'', sdk := Some stuck_sdk\<rparr>"
  by (rule holding_fields) (simp_all add: stuck_sdk_def demo_sdk_def)

subsection \<open>Result translation\<close>

text \<open>
  C3. For every raw SDK response, the translation used by the read paths
  (\<open>_responseToReadResult\<close>) and by the write paths (\<open>_responseToWriteResult\<close>) returns
  the success result carrying the whole \<open>response.result\<close> when its \<open>state\<close> is
  \<open>'HALT'\<close>, and otherwise the error result carrying the message and the code of the
  error object, each absent when the error object or the field is absent.
\<close>

theorem response_translation:
  "(state (result response) = ''HALT'' \<longrightarrow>
      responseToReadResult response = Success (result response) \<and>
      responseToWriteResult response = Success (result response)) \<and>
   (state (result response) \<noteq> ''HALT'' \<longrightarrow>
      responseToReadResult response =
        Error (Option.bind (error (result response)) message)
              (Option.bind (error (result response)) code) \<and>
      responseToWriteResult response =
        Error (Option.bind (error (result response)) message)
              (Option.bind (error (result response)) code))"
  by (cases "error (result response)")
     (simp_all add: responseToReadResult_def responseToWriteResult_def)

theorem response_translation_witness:
  "responseToReadResult halt_response =
     Success \<lparr>state = ''HALT'', error = None, payload = ''stack''\<rparr> \<and>
   responseToWriteResult halt_response =
     Success \<lparr>state = ''HALT'', error = None, payload = ''stack''\<rparr> \<and>
   responseToReadResult fault_response = Error (Some ''m'') (Some 7) \<and>
   responseToWriteResult fault_response = Error (Some ''m'') (Some 7)"
  using response_translation [of halt_response] response_translation [of fault_response]
  by (simp add: halt_response_def fault_response_def)

text \<open>
  C6. The read-path and the write-path translation give the same result on every raw
  SDK response.
\<close>

theorem read_write_translation_equal:
  "responseToReadResult response = responseToWriteResult response"
  by (simp add: responseToReadResult_def responseToWriteResult_def)

text \<open>Each invocation call that the SDK answers returns the translation of the answer.\<close>

lemma invocation_translates:
  assumes "sdk ad = Some k"
  shows "sdk_testInvoke k (single_args r) = Inr response \<Longrightarrow>
           ret (invokeRead ad r) = Inr (responseToReadResult response)"
    and "sdk_multiTestInvoke k (multi_args m) = Inr response \<Longrightarrow>
           ret (invokeReadMulti ad m) = Inr (responseToReadResult response)"
    and "sdk_invokeFunction k (single_args r) = Inr response \<Longrightarrow>
           ret (invoke ad r) = Inr (responseToWriteResult response)"
    and "sdk_multiInvoke k (multi_args m) = Inr response \<Longrightarrow>
           ret (invokeMulti ad m) = Inr (responseToWriteResult response)"
  using assms by (simp_all add: invokeRead_def invokeReadMulti_def invoke_def invokeMulti_def)

subsection \<open>connect\<close>

text \<open>
  C8. Every call to \<open>connect\<close> leaves the \<open>connecting\<close> flag false when it is over,
  whatever the adapter's fields were and however the SDK answers: on normal completion,
  on the early return of the guard and on every thrown error.
\<close>

theorem connect_clears_connecting:
  "connecting (post (connect ad new_sdk)) = False"
  by (simp add: connect_def Let_def split: sum.splits)

text \<open>
  C7. When \<open>connect\<close> runs past its guard, \<open>initClient\<close> and the SDK's \<open>connect\<close>
  resolve, and the SDK then has no session, \<open>connect\<close> throws a \<open>WalletAccountError\<close>
  built without arguments (not a \<open>WalletConnectionError\<close>), after emitting it as the
  only notification.
\<close>

theorem connect_without_session:
  assumes "\<not> connected ad" and "\<not> connecting ad"
    and "sdk_initClient k (logger ad) (relayServer ad) = None"
    and "sdk_connect k (options ad) = None"
    and "\<not> sdk_session k"
  shows "ret (connect ad (Inr k)) = Inl (WalletError WalletAccountError None None) \<and>
         emitted (connect ad (Inr k)) = [EvError (WalletError WalletAccountError None None)]"
  using assms by (simp add: connect_def connect_try_def connect_handshake_def)

theorem connect_without_session_witness:
  "\<not> connected fresh \<and> \<not> connecting fresh \<and>
   sdk_initClient sessionless_sdk (logger fresh) (relayServer fresh) = None \<and>
   sdk_connect sessionless_sdk (options fresh) = None \<and>
   \<not> sdk_session sessionless_sdk \<and>
   ret (connect fresh (Inr sessionless_sdk)) = Inl (WalletError WalletAccountError None None) \<and>
   emitted (connect fresh (Inr sessionless_sdk)) =
     [EvError (WalletError WalletAccountError None None)]"
proof -
  have a: "\<not> connected fresh" and b: "\<not> connecting fresh"
    by (simp_all add: connected_def fresh_def new_adapter_def)
  have c: "sdk_initClient sessionless_sdk (logger fresh) (relayServer fresh) = None"
    and d: "sdk_connect sessionless_sdk (options fresh) = None"
    and e: "\<not> sdk_session sessionless_sdk"
    by (simp_all add: sessionless_sdk_def demo_sdk_def)
  from a b c d e connect_without_session [OF a b c d e] show ?thesis by simp
qed

text \<open>
  C4, as the code has it. When \<open>connect\<close> is called with \<open>connected\<close> or
  \<open>connecting\<close> true, it makes no SDK call, emits nothing and resolves without
  throwing; the address, the SDK handle and the configuration keep their values, and
  the \<open>connecting\<close> flag is false afterwards. So the call changes nothing when the
  flag was already false.
\<close>

theorem connect_guarded:
  assumes "connected ad \<or> connecting ad"
  shows "connect ad new_sdk =
           \<lparr>ret = Inr (), post = ad\<lparr>connecting := False\<rparr>, emitted = [], sdk_calls = []\<rparr> \<and>
         (\<not> connecting ad \<longrightarrow> post (connect ad new_sdk) = ad)"
  using assms by (auto simp add: connect_def connect_try_def)

theorem connect_guarded_witness:
  "(connected (holding demo_sdk) \<or> connecting (holding demo_sdk)) \<and>
   \<not> connecting (holding demo_sdk) \<and>
   connect (holding demo_sdk) (Inr unreachable_sdk) =
     \<lparr>ret = Inr (), post = holding demo_sdk, emitted = [], sdk_calls = []\<rparr>"
proof -
  have a: "connected (holding demo_sdk) \<or> connecting (holding demo_sdk)"
    by (simp add: holding_demo connected_def)
  have b: "\<not> connecting (holding demo_sdk)"
    by (simp add: holding_demo fresh_def new_adapter_def)
  from a b connect_guarded [OF a, of "Inr unreachable_sdk"] show ?thesis by simp
qed

text \<open>
  C4 as stated fails: called on an adapter whose \<open>connecting\<close> flag is set, \<open>connect\<close>
  returns through the guard and its \<open>finally\<close> clears the flag, so the adapter's fields
  are not all unchanged.
\<close>

theorem connect_guarded_counterexample:
  "connecting (fresh\<lparr>connecting := True\<rparr>) \<and>
   sdk_calls (connect (fresh\<lparr>connecting := True\<rparr>) (Inr demo_sdk)) = [] \<and>
   ret (connect (fresh\<lparr>connecting := True\<rparr>) (Inr demo_sdk)) = Inr () \<and>
   post (connect (fresh\<lparr>connecting := True\<rparr>) (Inr demo_sdk)) \<noteq> fresh\<lparr>connecting := True\<rparr> \<and>
   connecting (post (connect (fresh\<lparr>connecting := True\<rparr>) (Inr demo_sdk))) = False"
proof -
  have "connect (fresh\<lparr>connecting := True\<rparr>) (Inr demo_sdk) =
          \<lparr>ret = Inr (), post = fresh\<lparr>connecting := False\<rparr>, emitted = [], sdk_calls = []\<rparr>"
    by (simp add: connect_def connect_try_def)
  moreover have "fresh\<lparr>connecting := False\<rparr> \<noteq> fresh\<lparr>connecting := True\<rparr>"
  proof
    assume "fresh\<lparr>connecting := False\<rparr> = fresh\<lparr>connecting := True\<rparr>"
    then have "connecting (fresh\<lparr>connecting := False\<rparr>) = connecting (fresh\<lparr>connecting := True\<rparr>)"
      by (rule arg_cong)
    then show False by simp
  qed
  ultimately show ?thesis by simp
qed

subsection \<open>disconnect\<close>

text \<open>
  C5. Every call to \<open>disconnect\<close> resolves without throwing and emits exactly one
  \<open>disconnect\<close> notification, whether or not an SDK handle is held and whether or not
  the SDK's \<open>disconnect\<close> rejects; when a held SDK's \<open>disconnect\<close> rejects with \<open>e\<close>,
  the notifications are one \<open>error\<close> carrying
  \<open>new WalletDisconnectionError(e?.message, e)\<close> followed by the \<open>disconnect\<close>.
\<close>

theorem disconnect_notifies:
  "ret (disconnect ad) = Inr () \<and>
   count_list (emitted (disconnect ad)) EvDisconnect = 1 \<and>
   (sdk ad = Some k \<and> sdk_disconnect k = Some e \<longrightarrow>
      emitted (disconnect ad) =
        [EvError (WalletError WalletDisconnectionError (message_of e) (Some e)), EvDisconnect])"
  by (simp add: disconnect_def split: option.splits)

theorem disconnect_notifies_witness:
  "sdk (holding stuck_sdk) = Some stuck_sdk \<and>
   sdk_disconnect stuck_sdk = Some (Foreign (Some ''teardown failed'')) \<and>
   ret (disconnect (holding stuck_sdk)) = Inr () \<and>
   count_list (emitted (disconnect (holding stuck_sdk))) EvDisconnect = 1 \<and>
   emitted (disconnect (holding stuck_sdk)) =
     [EvError (WalletError WalletDisconnectionError (Some ''teardown failed'')
                 (Some (Foreign (Some ''teardown failed'')))),
      EvDisconnect]"
proof -
  have a: "sdk (holding stuck_sdk) = Some stuck_sdk"
    by (simp add: holding_stuck)
  have b: "sdk_disconnect stuck_sdk = Some (Foreign (Some ''teardown failed''))"
    by (simp add: stuck_sdk_def)
  from a b
    disconnect_notifies [of "holding stuck_sdk" stuck_sdk "Foreign (Some ''teardown failed'')"]
  show ?thesis by simp
qed

text \<open>
  C10. When an SDK handle \<open>k\<close> is held and its \<open>disconnect\<close> rejects, \<open>disconnect\<close>
  leaves every field of the adapter as it was, the SDK handle and the address among
  them; each of the four invocation calls made next is forwarded to \<open>k\<close> and ends as
  \<open>k\<close> answers, with no check failing before the SDK call.
\<close>

theorem failed_disconnect_keeps_session:
  assumes "sdk ad = Some k" and "sdk_disconnect k = Some e"
  shows "post (disconnect ad) = ad \<and>
         sdk (post (disconnect ad)) = Some k \<and>
         address (post (disconnect ad)) = address ad \<and>
         sdk_calls (invokeRead (post (disconnect ad)) r) = [TestInvoke (single_args r)] \<and>
         ret (invokeRead (post (disconnect ad)) r) =
           map_sum id responseToReadResult (sdk_testInvoke k (single_args r)) \<and>
         sdk_calls (invokeReadMulti (post (disconnect ad)) m) =
           [MultiTestInvoke (multi_args m)] \<and>
         ret (invokeReadMulti (post (disconnect ad)) m) =
           map_sum id responseToReadResult (sdk_multiTestInvoke k (multi_args m)) \<and>
         sdk_calls (invoke (post (disconnect ad)) r) = [InvokeFunction (single_args r)] \<and>
         ret (invoke (post (disconnect ad)) r) =
           map_sum id responseToWriteResult (sdk_invokeFunction k (single_args r)) \<and>
         sdk_calls (invokeMulti (post (disconnect ad)) m) = [MultiInvoke (multi_args m)] \<and>
         ret (invokeMulti (post (disconnect ad)) m) =
           map_sum id responseToWriteResult (sdk_multiInvoke k (multi_args m))"
proof -
  have same: "post (disconnect ad) = ad"
    using assms by (simp add: disconnect_def)
  show ?thesis
    unfolding same using assms
    by (simp add: invokeRead_def invokeReadMulti_def invoke_def invokeMulti_def
        split: sum.splits)
qed

theorem failed_disconnect_keeps_session_witness:
  "sdk (holding stuck_sdk) = Some stuck_sdk \<and>
   sdk_disconnect stuck_sdk = Some (Foreign (Some ''teardown failed'')) \<and>
   post (disconnect (holding stuck_sdk)) = holding stuck_sdk \<and>
   address (post (disconnect (holding stuck_sdk))) =
     Some ''NZs2zXSPuuv9ZF6TDGSWT1RBmE8rfGj7UW'' \<and>
   sdk_calls (invokeRead (post (disconnect (holding stuck_sdk))) demo_request) =
     [TestInvoke (single_args demo_request)] \<and>
   ret (invokeRead (post (disconnect (holding stuck_sdk))) demo_request) =
     Inr (responseToReadResult halt_response) \<and>
   sdk_calls (invokeMulti (post (disconnect (holding stuck_sdk))) demo_request_multi) =
     [MultiInvoke (multi_args demo_request_multi)] \<and>
   ret (invokeMulti (post (disconnect (holding stuck_sdk))) demo_request_multi) =
     Inr (responseToWriteResult halt_response)"
proof -
  have a: "sdk (holding stuck_sdk) = Some stuck_sdk"
    by (simp add: holding_stuck)
  have b: "sdk_disconnect stuck_sdk = Some (Foreign (Some ''teardown failed''))"
    by (simp add: stuck_sdk_def)
  have c: "address (holding stuck_sdk) = Some ''NZs2zXSPuuv9ZF6TDGSWT1RBmE8rfGj7UW''"
    by (simp add: holding_stuck)
  have d: "sdk_testInvoke stuck_sdk (single_args demo_request) = Inr halt_response"
    and e: "sdk_multiInvoke stuck_sdk (multi_args demo_request_multi) = Inr halt_response"
    by (simp_all add: stuck_sdk_def demo_sdk_def)
  note t = failed_disconnect_keeps_session [OF a b, of demo_request demo_request_multi]
  from t have p: "post (disconnect (holding stuck_sdk)) = holding stuck_sdk"
    by (rule conjunct1)
  from a b c d e t show ?thesis
    unfolding p by simp
qed

subsection \<open>The forced disconnect\<close>

text \<open>
  Were \<open>_disconnected\<close> called on the adapter, two calls in a row from a state with
  an SDK handle would do what the method's body is written for: the first emits
  \<open>error\<close> with \<open>new WalletDisconnectedError()\<close>, then \<open>disconnect\<close>, and clears the
  address and the SDK handle; the second emits nothing and changes no field.
\<close>

lemma disconnected_on_adapter_twice:
  assumes "sdk ad = Some k"
  shows "emitted (disconnected ThisAdapter ad) =
           [EvError (WalletError WalletDisconnectedError None None), EvDisconnect] \<and>
         address (post (disconnected ThisAdapter ad)) = None \<and>
         sdk (post (disconnected ThisAdapter ad)) = None \<and>
         emitted (disconnected ThisAdapter (post (disconnected ThisAdapter ad))) = [] \<and>
         post (disconnected ThisAdapter (post (disconnected ThisAdapter ad))) =
           post (disconnected ThisAdapter ad)"
  using assms by (simp add: disconnected_def)

text \<open>As registered, the handler never touches the adapter, whatever its fields.\<close>

lemma onDeleted_inert:
  "post (onDeleted d ad) = ad \<and> emitted (onDeleted d ad) = [] \<and> sdk_calls (onDeleted d ad) = []"
  by (cases d) (simp_all add: onDeleted_def disconnected_def)

text \<open>
  C9 at a failing input. On an adapter that a successful \<open>connect\<close> left holding an SDK
  handle and an address, the forced-disconnect handler, invoked the way the session-deletion
  event invokes it, emits no notification on its first invocation and leaves the address
  and the SDK handle held: called on the callbacks object it returns at once, called as a
  plain function it throws a \<open>TypeError\<close> to the SDK.
\<close>

theorem session_deleted_handler_unbound:
  "sdk (holding demo_sdk) = Some demo_sdk \<and>
   address (holding demo_sdk) = Some ''NZs2zXSPuuv9ZF6TDGSWT1RBmE8rfGj7UW'' \<and>
   emitted (onDeleted CalledOnCallbacks (holding demo_sdk)) = [] \<and>
   post (onDeleted CalledOnCallbacks (holding demo_sdk)) = holding demo_sdk \<and>
   ret (onDeleted CalledOnCallbacks (holding demo_sdk)) = Inr () \<and>
   emitted (onDeleted CalledAsFunction (holding demo_sdk)) = [] \<and>
   post (onDeleted CalledAsFunction (holding demo_sdk)) = holding demo_sdk \<and>
   ret (onDeleted CalledAsFunction (holding demo_sdk)) =
     Inl (Foreign (Some ''Cannot read properties of undefined''))"
  by (simp add: onDeleted_def disconnected_def holding_demo)

subsection \<open>The invocation guard\<close>

text \<open>
  The guard of the four invocation calls tests the SDK handle: called while none is
  held, each throws \<open>new WalletNotConnectedError()\<close> at once, makes no SDK call, emits
  nothing and changes no field.
\<close>

lemma invocation_without_sdk:
  assumes "sdk ad = None"
  shows "invokeRead ad r =
           \<lparr>ret = Inl (WalletError WalletNotConnectedError None None), post = ad,
            emitted = [], sdk_calls = []\<rparr> \<and>
         invokeReadMulti ad m =
           \<lparr>ret = Inl (WalletError WalletNotConnectedError None None), post = ad,
            emitted = [], sdk_calls = []\<rparr> \<and>
         invoke ad r =
           \<lparr>ret = Inl (WalletError WalletNotConnectedError None None), post = ad,
            emitted = [], sdk_calls = []\<rparr> \<and>
         invokeMulti ad m =
           \<lparr>ret = Inl (WalletError WalletNotConnectedError None None), post = ad,
            emitted = [], sdk_calls = []\<rparr>"
  using assms by (simp add: invokeRead_def invokeReadMulti_def invoke_def invokeMulti_def)

text \<open>
  Wherever the address and the SDK handle are held together or not at all, and the
  address is not the empty string, \<open>connected\<close> being false means that no SDK handle is
  held, and every invocation call fails as above.
\<close>

lemma invocation_not_connected_when_paired:
  assumes "\<not> connected ad"
    and "(address ad = None) = (sdk ad = None)"
    and "address ad \<noteq> Some []"
  shows "invokeRead ad r =
           \<lparr>ret = Inl (WalletError WalletNotConnectedError None None), post = ad,
            emitted = [], sdk_calls = []\<rparr> \<and>
         invokeReadMulti ad m =
           \<lparr>ret = Inl (WalletError WalletNotConnectedError None None), post = ad,
            emitted = [], sdk_calls = []\<rparr> \<and>
         invoke ad r =
           \<lparr>ret = Inl (WalletError WalletNotConnectedError None None), post = ad,
            emitted = [], sdk_calls = []\<rparr> \<and>
         invokeMulti ad m =
           \<lparr>ret = Inl (WalletError WalletNotConnectedError None None), post = ad,
            emitted = [], sdk_calls = []\<rparr>"
proof -
  from assms(1,3) have "address ad = None"
    by (cases "address ad") (simp_all add: connected_def)
  with assms(2) have "sdk ad = None"
    by simp
  then show ?thesis
    by (rule invocation_without_sdk)
qed

text \<open>
  C1 at a failing input. After a \<open>connect\<close> whose \<open>initClient\<close> rejects, \<open>connected\<close>
  is false, yet \<open>invokeRead\<close> passes its guard, calls the SDK's \<open>testInvoke\<close> and
  returns the translated answer instead of throwing a \<open>WalletNotConnectedError\<close>:
  the failed \<open>connect\<close> has left the SDK instance of line 86 in \<open>_sdk\<close>.
\<close>

theorem invocation_after_failed_connect:
  "\<not> connected (post (connect fresh (Inr unreachable_sdk))) \<and>
   sdk_calls (invokeRead (post (connect fresh (Inr unreachable_sdk))) demo_request) =
     [TestInvoke (single_args demo_request)] \<and>
   ret (invokeRead (post (connect fresh (Inr unreachable_sdk))) demo_request) =
     Inr (Success \<lparr>state = ''HALT'', error = None, payload = ''stack''\<rparr>)"
  unfolding connect_unreachable
  by (simp add: connected_def fresh_def new_adapter_def invokeRead_def
      unreachable_sdk_def demo_sdk_def responseToReadResult_def halt_response_def)

subsection \<open>Address and SDK handle\<close>

text \<open>One half of the pairing of address and SDK handle does hold: no call makes
  the address non-null while leaving the adapter without an SDK handle.\<close>

lemma address_needs_sdk_new: "address_needs_sdk (new_adapter config)"
  by (simp add: address_needs_sdk_def new_adapter_def)

lemma address_needs_sdk_connect:
  "address_needs_sdk ad \<Longrightarrow> address_needs_sdk (post (connect ad new_sdk))"
  by (auto simp add: address_needs_sdk_def connect_def connect_try_def connect_handshake_def
      Let_def split: sum.splits option.splits)

lemma address_needs_sdk_disconnect:
  "address_needs_sdk ad \<Longrightarrow> address_needs_sdk (post (disconnect ad))"
  by (auto simp add: address_needs_sdk_def disconnect_def split: option.splits)

lemma address_needs_sdk_disconnected:
  "address_needs_sdk ad \<Longrightarrow> address_needs_sdk (post (disconnected this ad))"
  by (auto simp add: address_needs_sdk_def disconnected_def
      split: option.splits receiver.splits)

lemma invocation_keeps_fields:
  "post (invokeRead ad r) = ad" "post (invokeReadMulti ad m) = ad"
  "post (invoke ad r) = ad" "post (invokeMulti ad m) = ad"
  by (simp_all add: invokeRead_def invokeReadMulti_def invoke_def invokeMulti_def
      split: option.splits sum.splits)

text \<open>
  C2 at a failing input. A new adapter on which \<open>connect\<close> is called with an SDK whose
  \<open>initClient\<close> rejects ends the call, which throws a \<open>WalletConnectionError\<close>, holding
  the SDK instance while its address is still \<open>null\<close>.
\<close>

theorem failed_connect_keeps_sdk:
  "ret (connect fresh (Inr unreachable_sdk)) =
     Inl (WalletError WalletConnectionError (Some ''relay unreachable'')
            (Some (Foreign (Some ''relay unreachable'')))) \<and>
   address (post (connect fresh (Inr unreachable_sdk))) = None \<and>
   sdk (post (connect fresh (Inr unreachable_sdk))) = Some unreachable_sdk"
  unfolding connect_unreachable by (simp add: fresh_def new_adapter_def)

end
